theory Spec2Isabelle
  imports Complex_Main "HOL-Library.Sublist"
begin

section \<open>Store API (app/main.py): data model\<close>

text \<open>
  The service keeps four tables (products, carts, cart_items, favorites) behind a
  SQLAlchemy session and answers HTTP requests through FastAPI handlers. Every handler
  is embedded as a function from the store to a result and the store it leaves behind.
  A table is the list of its rows, in the order the engine returns them to an unordered
  SELECT; a new row is appended.

  Two things the handlers use are not part of \<^verbatim>\<open>app/main.py\<close> and are taken as
  parameters, so that every theorem holds for each choice of them:
  \<^item> Python's float arithmetic (\<^verbatim>\<open>0.0\<close>, \<^verbatim>\<open>+\<close>, \<^verbatim>\<open>float * int\<close>, \<^verbatim>\<open>round(x, 2)\<close>, \<^verbatim>\<open>x > 0\<close>, and
    whether a float is finite, which is what \<^verbatim>\<open>json.dumps(..., allow_nan=False)\<close> of the
    response asks of it): the record \<open>float_ops\<close> over a type \<open>'f\<close> of float values;
  \<^item> the database engine configured in \<^verbatim>\<open>app/database.py\<close>: the record \<open>backend\<close> says
    whether it enforces foreign keys, whether backslash escapes in LIKE patterns, what
    its \<^verbatim>\<open>lower()\<close> does to a character, and which integers its driver accepts as a bound
    parameter and as the content of an INTEGER column (SQLite: the 64-bit signed ones).
  Python's \<^verbatim>\<open>int\<close> is \<open>int\<close>, unbounded. A \<^verbatim>\<open>str\<close> is the list of its code points.
\<close>

record 'f float_ops =
  fzero :: 'f
  fadd :: "'f \<Rightarrow> 'f \<Rightarrow> 'f"
  fmul_int :: "'f \<Rightarrow> int \<Rightarrow> 'f"
  round2 :: "'f \<Rightarrow> 'f"
  fpositive :: "'f \<Rightarrow> bool"
  ffinite :: "'f \<Rightarrow> bool"

record backend =
  fk_enforced :: bool
  like_backslash_escape :: bool
  lower :: "nat \<Rightarrow> nat"
  int_min :: int
  int_max :: int

definition in_range :: "backend \<Rightarrow> int \<Rightarrow> bool" where
  "in_range be n = (int_min be \<le> n \<and> n \<le> int_max be)"

type_synonym pystr = "nat list"

text \<open>The \<^verbatim>\<open>str\<close> of a string literal.\<close>

definition str :: "string \<Rightarrow> pystr" where
  "str s = map of_char s"

subsection \<open>Pydantic models\<close>

text \<open>\<^verbatim>\<open>ProductBase\<close> (and \<^verbatim>\<open>ProductCreate\<close>, which adds nothing), and \<^verbatim>\<open>Product\<close>, which adds
  the id. The rows of \<^verbatim>\<open>ProductORM\<close> have the same eleven attributes and use the same record.\<close>

record 'f ProductBase =
  name :: pystr
  description :: "pystr option"
  price :: 'f
  discount_percentage :: "'f option"
  rating :: "'f option"
  stock :: "int option"
  brand :: "pystr option"
  category :: "pystr option"
  thumbnail :: "pystr option"
  images :: "pystr option"

record 'f Product = "'f ProductBase" +
  p_id :: int

type_synonym 'f ProductCreate = "'f ProductBase"
type_synonym 'f ProductORM = "'f Product"

text \<open>A field of \<^verbatim>\<open>ProductUpdate\<close>: left out of the request body (\<open>Unset\<close>), or given, as
  \<^verbatim>\<open>null\<close> (\<open>Given None\<close>) or as a value. \<^verbatim>\<open>model_dump(exclude_unset=True)\<close> keeps exactly
  the given fields, the ones given as \<^verbatim>\<open>null\<close> too.\<close>

datatype 'a field = Unset | Given "'a option"

record 'f ProductUpdate =
  upd_name :: "pystr field"
  upd_description :: "pystr field"
  upd_price :: "'f field"

record CartItem =
  product_id :: int
  quantity :: int

record Cart =
  cart_id :: int
  cart_lines :: "CartItem list"

record 'f CartSummary = Cart +
  cart_total :: 'f


subsection \<open>SQLAlchemy models and the store\<close>

record CartORM =
  c_id :: int

record CartItemORM =
  ci_id :: int
  ci_cart_id :: int
  ci_product_id :: int
  ci_quantity :: int

record FavoriteORM =
  f_id :: int
  f_product_id :: int

record 'f store =
  products :: "'f ProductORM list"
  carts :: "CartORM list"
  cart_items :: "CartItemORM list"
  favorites :: "FavoriteORM list"

subsection \<open>Errors and responses\<close>

text \<open>What a request can end in besides its success response: an \<^verbatim>\<open>HTTPException\<close> the
  handler raises (status and detail), FastAPI's 422 for a request that fails the declared
  validation, and the exceptions no handler catches, all answered with 500: the engine's
  \<^verbatim>\<open>IntegrityError\<close> at commit, the driver's \<^verbatim>\<open>OverflowError\<close> for an integer it does not
  accept, pydantic's \<^verbatim>\<open>ValidationError\<close> raised while the handler builds its response
  model, and the \<^verbatim>\<open>ValueError\<close> of the JSON encoder for a float that is not finite.\<close>

datatype error =
    HTTPException nat string
  | RequestValidationError
  | IntegrityError
  | OverflowError
  | ResponseValidationError
  | ValueError

fun status_of :: "error \<Rightarrow> nat" where
  "status_of (HTTPException code detail) = code"
| "status_of RequestValidationError = 422"
| "status_of IntegrityError = 500"
| "status_of OverflowError = 500"
| "status_of ResponseValidationError = 500"
| "status_of ValueError = 500"

text \<open>A success response: the status code of the route's decorator, and the body.\<close>

type_synonym 'a response = "nat \<times> 'a"

type_synonym ('f, 'a) outcome = "(error + 'a response) \<times> 'f store"

section \<open>Session primitives\<close>

text \<open>\<^verbatim>\<open>db.get(Model, pk)\<close>: the SELECT binds \<^verbatim>\<open>pk\<close>, so the driver raises on a key it does
  not accept; otherwise the row with that primary key, or \<^verbatim>\<open>None\<close>.\<close>

definition get_ProductORM :: "backend \<Rightarrow> 'f store \<Rightarrow> int \<Rightarrow> error + 'f ProductORM option" where
  "get_ProductORM be db pk =
     (if in_range be pk then Inr (find (\<lambda>p. p_id p = pk) (products db)) else Inl OverflowError)"

definition get_CartORM :: "backend \<Rightarrow> 'f store \<Rightarrow> int \<Rightarrow> error + CartORM option" where
  "get_CartORM be db pk =
     (if in_range be pk then Inr (find (\<lambda>c. c_id c = pk) (carts db)) else Inl OverflowError)"

text \<open>The relationship \<^verbatim>\<open>CartORM.items\<close>: the line-items whose \<^verbatim>\<open>cart_id\<close> is the cart's id.
  The relationship \<^verbatim>\<open>CartItemORM.product\<close>: the product the stored foreign key names,
  \<^verbatim>\<open>None\<close> when no such row exists.\<close>

definition items_of :: "'f store \<Rightarrow> CartORM \<Rightarrow> CartItemORM list" where
  "items_of db cart = filter (\<lambda>ci. ci_cart_id ci = c_id cart) (cart_items db)"

definition product_of :: "'f store \<Rightarrow> CartItemORM \<Rightarrow> 'f ProductORM option" where
  "product_of db item = find (\<lambda>p. p_id p = ci_product_id item) (products db)"

text \<open>The primary key the engine gives a new row: one more than the largest key of the
  table (1 for an empty table), hence a key no row of the table has.\<close>

definition next_id :: "int list \<Rightarrow> int" where
  "next_id ids = fold max ids 0 + 1"

section \<open>Cart total\<close>

text \<open>\<^verbatim>\<open>calculate_cart_total\<close>: the loop over \<^verbatim>\<open>cart_orm.items\<close> with its accumulator
  \<^verbatim>\<open>total\<close>, then \<^verbatim>\<open>round(total, 2)\<close>. An item whose product is \<^verbatim>\<open>None\<close> is skipped.\<close>

fun total_loop :: "'f float_ops \<Rightarrow> 'f store \<Rightarrow> CartItemORM list \<Rightarrow> 'f \<Rightarrow> 'f" where
  "total_loop ops db [] acc = acc"
| "total_loop ops db (item # rest) acc =
     (case product_of db item of
        Some product \<Rightarrow>
          total_loop ops db rest (fadd ops acc (fmul_int ops (price product) (ci_quantity item)))
      | None \<Rightarrow> total_loop ops db rest acc)"

definition calculate_cart_total :: "'f float_ops \<Rightarrow> 'f store \<Rightarrow> CartORM \<Rightarrow> 'f" where
  "calculate_cart_total ops db cart_orm =
     round2 ops (total_loop ops db (items_of db cart_orm) (fzero ops))"

section \<open>Validation and serialization\<close>

text \<open>The constraints of \<^verbatim>\<open>ProductBase\<close>: \<^verbatim>\<open>name\<close> of 1 to 120 characters, \<^verbatim>\<open>description\<close> of
  at most 500 when it is not \<^verbatim>\<open>None\<close>, \<^verbatim>\<open>price\<close> a \<^verbatim>\<open>PositiveFloat\<close>. FastAPI checks them on the
  body of \<^verbatim>\<open>POST /products\<close>, and \<^verbatim>\<open>Product.model_validate\<close> checks them again on every
  row a handler turns into a response.\<close>

definition ProductBase_valid :: "'f float_ops \<Rightarrow> ('f, 'x) ProductBase_scheme \<Rightarrow> bool" where
  "ProductBase_valid ops p =
     (1 \<le> length (name p) \<and> length (name p) \<le> 120
      \<and> (case description p of None \<Rightarrow> True | Some d \<Rightarrow> length d \<le> 500)
      \<and> fpositive ops (price p))"

definition Product_model_validate :: "'f float_ops \<Rightarrow> 'f ProductORM \<Rightarrow> 'f Product option" where
  "Product_model_validate ops p = (if ProductBase_valid ops p then Some p else None)"

text \<open>The JSON encoder of the response accepts a product when its three floats are
  finite.\<close>

definition Product_json :: "'f float_ops \<Rightarrow> ('f, 'x) ProductBase_scheme \<Rightarrow> bool" where
  "Product_json ops p =
     (ffinite ops (price p)
      \<and> (case discount_percentage p of None \<Rightarrow> True | Some x \<Rightarrow> ffinite ops x)
      \<and> (case rating p of None \<Rightarrow> True | Some x \<Rightarrow> ffinite ops x))"

text \<open>\<^verbatim>\<open>return Product.model_validate(product)\<close> under a route with the given status code:
  the validation, then the encoding of the body.\<close>

definition respond_Product :: "'f float_ops \<Rightarrow> nat \<Rightarrow> 'f ProductORM \<Rightarrow> error + 'f Product response" where
  "respond_Product ops code product =
     (case Product_model_validate ops product of
        None \<Rightarrow> Inl ResponseValidationError
      | Some body \<Rightarrow> if Product_json ops body then Inr (code, body) else Inl ValueError)"

text \<open>The constraints of \<^verbatim>\<open>ProductUpdate\<close>: the same bounds, each on a field that is given
  and not \<^verbatim>\<open>null\<close>; every field may be left out or be \<^verbatim>\<open>null\<close>.\<close>

definition ProductUpdate_valid :: "'f float_ops \<Rightarrow> 'f ProductUpdate \<Rightarrow> bool" where
  "ProductUpdate_valid ops u =
     ((case upd_name u of Given (Some n) \<Rightarrow> 1 \<le> length n \<and> length n \<le> 120 | _ \<Rightarrow> True)
      \<and> (case upd_description u of Given (Some d) \<Rightarrow> length d \<le> 500 | _ \<Rightarrow> True)
      \<and> (case upd_price u of Given (Some x) \<Rightarrow> fpositive ops x | _ \<Rightarrow> True))"

text \<open>\<^verbatim>\<open>CartItem(product_id=..., quantity=...)\<close>: \<^verbatim>\<open>quantity\<close> is a \<^verbatim>\<open>PositiveInt\<close>, so the
  constructor raises (\<open>None\<close>) on a quantity below 1.\<close>

definition CartItem_new :: "int \<Rightarrow> int \<Rightarrow> CartItem option" where
  "CartItem_new pid q = (if 0 < q then Some \<lparr>product_id = pid, quantity = q\<rparr> else None)"

section \<open>Cart handlers\<close>

text \<open>The response that \<^verbatim>\<open>get_cart\<close>, \<^verbatim>\<open>add_cart_item\<close> and \<^verbatim>\<open>remove_cart_item\<close> all end with:
  the list comprehension over \<^verbatim>\<open>cart.items\<close>, the total,
  \<^verbatim>\<open>CartSummary(id=cart.id, items=items, total=total)\<close>, and the encoding of that body, of
  which the total is the one float.\<close>

definition cart_summary :: "'f float_ops \<Rightarrow> 'f store \<Rightarrow> CartORM \<Rightarrow> error + 'f CartSummary response" where
  "cart_summary ops db cart =
     (case those (map (\<lambda>ci. CartItem_new (ci_product_id ci) (ci_quantity ci)) (items_of db cart)) of
        None \<Rightarrow> Inl ResponseValidationError
      | Some its \<Rightarrow>
          if ffinite ops (calculate_cart_total ops db cart)
          then Inr (200, \<lparr>cart_id = c_id cart, cart_lines = its,
                          cart_total = calculate_cart_total ops db cart\<rparr>)
          else Inl ValueError)"


text \<open>\<^verbatim>\<open>existing.quantity += item.quantity\<close> followed by the commit: the UPDATE of the row
  with the primary key of \<^verbatim>\<open>existing\<close>.\<close>

definition set_quantity :: "int \<Rightarrow> int \<Rightarrow> CartItemORM list \<Rightarrow> CartItemORM list" where
  "set_quantity pk q rows = map (\<lambda>r. if ci_id r = pk then r\<lparr>ci_quantity := q\<rparr> else r) rows"

text \<open>\<^verbatim>\<open>db.delete(item)\<close> followed by the commit: the DELETE of the row with that key.\<close>

definition delete_cart_item_row :: "int \<Rightarrow> CartItemORM list \<Rightarrow> CartItemORM list" where
  "delete_cart_item_row pk rows = filter (\<lambda>r. ci_id r \<noteq> pk) rows"

text \<open>\<^verbatim>\<open>add_cart_item\<close>. The commit binds the quantity it writes (the sum for an existing
  line-item, the requested one for a new row): the driver raises on one it does not
  accept, and nothing is written.\<close>

definition add_cart_item ::
  "backend \<Rightarrow> 'f float_ops \<Rightarrow> int \<Rightarrow> CartItem \<Rightarrow> 'f store \<Rightarrow> ('f, 'f CartSummary) outcome" where
  "add_cart_item be ops cid item db =
     (if quantity item < 1 then (Inl RequestValidationError, db)
      else case get_CartORM be db cid of
        Inl e \<Rightarrow> (Inl e, db)
      | Inr None \<Rightarrow> (Inl (HTTPException 404 ''Cart not found''), db)
      | Inr (Some cart) \<Rightarrow>
         (case get_ProductORM be db (product_id item) of
            Inl e \<Rightarrow> (Inl e, db)
          | Inr None \<Rightarrow> (Inl (HTTPException 404 ''Product not found''), db)
          | Inr (Some product) \<Rightarrow>
             (case find (\<lambda>ci. ci_product_id ci = product_id item) (items_of db cart) of
                Some existing \<Rightarrow>
                  if in_range be (ci_quantity existing + quantity item)
                  then
                    (let db' = db\<lparr>cart_items :=
                            set_quantity (ci_id existing) (ci_quantity existing + quantity item)
                              (cart_items db)\<rparr>
                     in (cart_summary ops db' cart, db'))
                  else (Inl OverflowError, db)
              | None \<Rightarrow>
                  if in_range be (quantity item)
                  then
                    (let db' = db\<lparr>cart_items := cart_items db @
                            [\<lparr>ci_id = next_id (map ci_id (cart_items db)), ci_cart_id = c_id cart,
                              ci_product_id = product_id item, ci_quantity = quantity item\<rparr>]\<rparr>
                     in (cart_summary ops db' cart, db'))
                  else (Inl OverflowError, db))))"

text \<open>\<^verbatim>\<open>remove_cart_item\<close>. The product id is only compared in Python with the
  \<^verbatim>\<open>product_id\<close> of the loaded items; it is never bound.\<close>

definition remove_cart_item ::
  "backend \<Rightarrow> 'f float_ops \<Rightarrow> int \<Rightarrow> int \<Rightarrow> 'f store \<Rightarrow> ('f, 'f CartSummary) outcome" where
  "remove_cart_item be ops cid pid db =
     (case get_CartORM be db cid of
        Inl e \<Rightarrow> (Inl e, db)
      | Inr None \<Rightarrow> (Inl (HTTPException 404 ''Cart not found''), db)
      | Inr (Some cart) \<Rightarrow>
         (let db' =
            (case find (\<lambda>ci. ci_product_id ci = pid) (items_of db cart) of
               Some item \<Rightarrow> db\<lparr>cart_items := delete_cart_item_row (ci_id item) (cart_items db)\<rparr>
             | None \<Rightarrow> db)
          in (cart_summary ops db' cart, db')))"

section \<open>Product handlers\<close>

text \<open>The loop \<^verbatim>\<open>for key, value in payload.model_dump(exclude_unset=True).items():
  setattr(product, key, value)\<close>: each given field replaces the attribute. The columns
  \<^verbatim>\<open>name\<close> and \<^verbatim>\<open>price\<close> are \<^verbatim>\<open>Mapped[str]\<close> and \<^verbatim>\<open>Mapped[float]\<close>, hence NOT NULL: a row with one
  of them set to \<^verbatim>\<open>None\<close> cannot be written, which \<open>writes_null\<close> detects; \<open>set_fields\<close> is the
  row for every other payload.\<close>

definition writes_null :: "'f ProductUpdate \<Rightarrow> bool" where
  "writes_null u = (upd_name u = Given None \<or> upd_price u = Given None)"

definition set_fields ::
  "'f ProductUpdate \<Rightarrow> ('f, 'x) ProductBase_scheme \<Rightarrow> ('f, 'x) ProductBase_scheme" where
  "set_fields u p =
     p\<lparr>name := (case upd_name u of Given (Some n) \<Rightarrow> n | _ \<Rightarrow> name p),
       description := (case upd_description u of Given d \<Rightarrow> d | Unset \<Rightarrow> description p),
       price := (case upd_price u of Given (Some x) \<Rightarrow> x | _ \<Rightarrow> price p)\<rparr>"

text \<open>\<^verbatim>\<open>update_product\<close>. FastAPI validates the body first (422). The commit raises
  \<^verbatim>\<open>IntegrityError\<close> when a NOT NULL column was set to \<^verbatim>\<open>None\<close>, and nothing is written;
  otherwise it writes the row with the key of \<^verbatim>\<open>product\<close>.\<close>

definition update_product ::
  "backend \<Rightarrow> 'f float_ops \<Rightarrow> int \<Rightarrow> 'f ProductUpdate \<Rightarrow> 'f store \<Rightarrow> ('f, 'f Product) outcome" where
  "update_product be ops pid payload db =
     (if \<not> ProductUpdate_valid ops payload then (Inl RequestValidationError, db)
      else case get_ProductORM be db pid of
        Inl e \<Rightarrow> (Inl e, db)
      | Inr None \<Rightarrow> (Inl (HTTPException 404 ''Product not found''), db)
      | Inr (Some product) \<Rightarrow>
          if writes_null payload then (Inl IntegrityError, db)
          else
            (let product' = set_fields payload product;
                 db' = db\<lparr>products :=
                          map (\<lambda>r. if p_id r = p_id product then product' else r) (products db)\<rparr>
             in (respond_Product ops 200 product', db')))"

text \<open>\<^verbatim>\<open>delete_product\<close>. \<^verbatim>\<open>db.delete(product)\<close>: the relationship \<^verbatim>\<open>ProductORM.items\<close> has
  \<^verbatim>\<open>cascade="all, delete-orphan"\<close>, so the session deletes the line-items of the product, then
  the product. No relationship and no \<^verbatim>\<open>ondelete\<close> leads from a product to its favorite:
  \<^verbatim>\<open>FavoriteORM.product_id\<close> is a plain \<^verbatim>\<open>ForeignKey("products.id")\<close>. An engine that enforces
  foreign keys rejects the DELETE of a product a favorite refers to (\<^verbatim>\<open>IntegrityError\<close> at
  commit, nothing written); one that does not leaves the favorite row in place.\<close>

definition delete_product :: "backend \<Rightarrow> int \<Rightarrow> 'f store \<Rightarrow> ('f, unit) outcome" where
  "delete_product be pid db =
     (case get_ProductORM be db pid of
        Inl e \<Rightarrow> (Inl e, db)
      | Inr None \<Rightarrow> (Inl (HTTPException 404 ''Product not found''), db)
      | Inr (Some product) \<Rightarrow>
          if fk_enforced be \<and> list_ex (\<lambda>f. f_product_id f = p_id product) (favorites db)
          then (Inl IntegrityError, db)
          else (Inr (204, ()),
                db\<lparr>cart_items := filter (\<lambda>ci. ci_product_id ci \<noteq> p_id product) (cart_items db),
                   products := filter (\<lambda>p. p_id p \<noteq> p_id product) (products db)\<rparr>))"

subsection \<open>Search\<close>







section \<open>Favorites\<close>

text \<open>\<^verbatim>\<open>add_favorite\<close>. \<^verbatim>\<open>db.query(FavoriteORM).filter(...).first()\<close> is the first favorite of
  the product. The route answers 201.\<close>

definition add_favorite ::
  "backend \<Rightarrow> 'f float_ops \<Rightarrow> int \<Rightarrow> 'f store \<Rightarrow> ('f, 'f Product) outcome" where
  "add_favorite be ops pid db =
     (case get_ProductORM be db pid of
        Inl e \<Rightarrow> (Inl e, db)
      | Inr None \<Rightarrow> (Inl (HTTPException 404 ''Product not found''), db)
      | Inr (Some product) \<Rightarrow>
         (case find (\<lambda>f. f_product_id f = pid) (favorites db) of
            Some existing \<Rightarrow> (respond_Product ops 201 product, db)
          | None \<Rightarrow>
              (let db' = db\<lparr>favorites := favorites db @
                           [\<lparr>f_id = next_id (map f_id (favorites db)), f_product_id = pid\<rparr>]\<rparr>
               in (respond_Product ops 201 product, db'))))"

section \<open>Well-formed stores\<close>

text \<open>What the engine enforces on every table: primary keys are unique, and
  \<^verbatim>\<open>favorites.product_id\<close> is declared \<^verbatim>\<open>unique=True\<close>.\<close>

definition keys_ok :: "'f store \<Rightarrow> bool" where
  "keys_ok db =
     (distinct (map p_id (products db)) \<and> distinct (map c_id (carts db))
      \<and> distinct (map ci_id (cart_items db)) \<and> distinct (map f_id (favorites db))
      \<and> distinct (map f_product_id (favorites db)))"

text \<open>Rows that a response can show: a stored product meets the constraints of
  \<^verbatim>\<open>ProductBase\<close> and its floats are finite, a stored quantity is positive.\<close>

definition rows_valid :: "'f float_ops \<Rightarrow> 'f store \<Rightarrow> bool" where
  "rows_valid ops db =
     (list_all (\<lambda>p. ProductBase_valid ops p \<and> Product_json ops p) (products db)
      \<and> list_all (\<lambda>ci. 0 < ci_quantity ci) (cart_items db))"

text \<open>The invariant of the data model: at most one line-item per (cart, product) pair.\<close>

definition one_line_per_pair :: "'f store \<Rightarrow> bool" where
  "one_line_per_pair db = distinct (map (\<lambda>ci. (ci_cart_id ci, ci_product_id ci)) (cart_items db))"

section \<open>Notions the properties are stated with\<close>

text \<open>The line-items a cart holds for a product, the quantity of the first of them (0
  when there is none), and the \<^verbatim>\<open>CartItem\<close> a response shows for a stored line-item.\<close>

definition lines_for :: "'f store \<Rightarrow> int \<Rightarrow> int \<Rightarrow> CartItemORM list" where
  "lines_for db cid pid =
     filter (\<lambda>ci. ci_cart_id ci = cid \<and> ci_product_id ci = pid) (cart_items db)"

definition held_quantity :: "'f store \<Rightarrow> int \<Rightarrow> int \<Rightarrow> int" where
  "held_quantity db cid pid =
     (case lines_for db cid pid of [] \<Rightarrow> 0 | existing # rest \<Rightarrow> ci_quantity existing)"


text \<open>The store \<^verbatim>\<open>add_cart_item\<close> leaves and the response it gives once both lookups have
  succeeded: the response is the summary of the cart in the store it leaves.\<close>

definition added :: "'f store \<Rightarrow> int \<Rightarrow> CartItem \<Rightarrow> 'f store" where
  "added db cid item =
     (case lines_for db cid (product_id item) of
        [] \<Rightarrow> db\<lparr>cart_items := cart_items db @
                [\<lparr>ci_id = next_id (map ci_id (cart_items db)), ci_cart_id = cid,
                  ci_product_id = product_id item, ci_quantity = quantity item\<rparr>]\<rparr>
      | existing # rest \<Rightarrow>
           db\<lparr>cart_items := set_quantity (ci_id existing) (ci_quantity existing + quantity item)
             (cart_items db)\<rparr>)"


text \<open>The favorite rows of a product.\<close>

definition favorites_of :: "'f store \<Rightarrow> int \<Rightarrow> FavoriteORM list" where
  "favorites_of db pid = filter (\<lambda>f. f_product_id f = pid) (favorites db)"





section \<open>Concrete engines, values and stores\<close>

text \<open>The \<^verbatim>\<open>lower\<close> of SQLite turns the letters A to Z into a to z and leaves every other
  character as it is. Two engines with it and with 64-bit signed integers: one that
  enforces neither foreign keys nor a LIKE escape character (SQLite as SQLAlchemy opens
  it), and one that enforces both.\<close>

definition ascii_lower :: "nat \<Rightarrow> nat" where
  "ascii_lower c = (if 65 \<le> c \<and> c \<le> 90 then c + 32 else c)"

definition lenient_backend :: backend where
  "lenient_backend =
     \<lparr>fk_enforced = False, like_backslash_escape = False, lower = ascii_lower,
      int_min = - (2 ^ 63), int_max = 2 ^ 63 - 1\<rparr>"

definition strict_backend :: backend where
  "strict_backend =
     \<lparr>fk_enforced = True, like_backslash_escape = True, lower = ascii_lower,
      int_min = - (2 ^ 63), int_max = 2 ^ 63 - 1\<rparr>"

text \<open>To have concrete prices in the stores below, the float values are taken to be
  rationals, all of them finite. Only their order with 0 enters the statements made about
  these stores.\<close>

definition round_half_even :: "rat \<Rightarrow> int" where
  "round_half_even x =
     (let f = \<lfloor>x\<rfloor>; d = x - of_int f
      in if d < 1 / 2 then f else if 1 / 2 < d then f + 1 else if even f then f else f + 1)"

definition rational_ops :: "rat float_ops" where
  "rational_ops =
     \<lparr>fzero = 0, fadd = (+), fmul_int = (\<lambda>x n. x * of_int n),
      round2 = (\<lambda>x. of_int (round_half_even (x * 100)) / 100), fpositive = (\<lambda>x. 0 < x),
      ffinite = (\<lambda>x. True)\<rparr>"

text \<open>The store of the scenario of the specification: the product Widget at 9.99 with id
  1, and the empty cart 1; the same store once three Widgets are in the cart; and that
  one with the Widget a favorite.\<close>

definition widget :: "rat Product" where
  "widget =
     \<lparr>name = str ''Widget'', description = None, price = 999 / 100, discount_percentage = None,
      rating = None, stock = None, brand = None, category = None, thumbnail = None,
      images = None, p_id = 1\<rparr>"

definition shop :: "rat store" where
  "shop = \<lparr>products = [widget], carts = [\<lparr>c_id = 1\<rparr>], cart_items = [], favorites = []\<rparr>"

definition shop3 :: "rat store" where
  "shop3 = shop\<lparr>cart_items :=
     [\<lparr>ci_id = 1, ci_cart_id = 1, ci_product_id = 1, ci_quantity = 3\<rparr>]\<rparr>"

definition favorite_shop :: "rat store" where
  "favorite_shop = shop3\<lparr>favorites := [\<lparr>f_id = 1, f_product_id = 1\<rparr>]\<rparr>"




text \<open>The body \<^verbatim>\<open>{"name": null}\<close> of \<^verbatim>\<open>PUT /products/{id}\<close>.\<close>

definition null_name :: "rat ProductUpdate" where
  "null_name = \<lparr>upd_name = Given None, upd_description = Unset, upd_price = Unset\<rparr>"

section \<open>Lookups and the cart summary\<close>

lemma find_one_field [simp]: "c_id cart = cid \<longleftrightarrow> cart = \<lparr>c_id = cid\<rparr>"
  by (cases cart) auto

lemma get_CartORM_cases:
  assumes "in_range be cid"
  shows "(cid \<notin> c_id ` set (carts db) \<longrightarrow> get_CartORM be db cid = Inr None)
       \<and> (cid \<in> c_id ` set (carts db) \<longrightarrow> get_CartORM be db cid = Inr (Some \<lparr>c_id = cid\<rparr>))"
proof -
  have "find (\<lambda>c. c_id c = cid) rows = (if cid \<in> c_id ` set rows then Some \<lparr>c_id = cid\<rparr> else None)"
    for rows
    by (induction rows) auto
  then show ?thesis using assms by (simp add: get_CartORM_def)
qed

lemma get_CartORM_out: "\<not> in_range be cid \<Longrightarrow> get_CartORM be db cid = Inl OverflowError"
  by (simp add: get_CartORM_def)

lemma get_ProductORM_None:
  "in_range be pid \<Longrightarrow> pid \<notin> p_id ` set (products db) \<Longrightarrow> get_ProductORM be db pid = Inr None"
  by (auto simp: get_ProductORM_def find_None_iff)

lemma get_ProductORM_Some:
  "in_range be pid \<Longrightarrow> pid \<in> p_id ` set (products db) \<Longrightarrow>
   \<exists>p. get_ProductORM be db pid = Inr (Some p) \<and> p \<in> set (products db) \<and> p_id p = pid"
  by (cases "find (\<lambda>p. p_id p = pid) (products db)")
    (auto simp: get_ProductORM_def find_None_iff find_Some_iff)

lemma get_ProductORM_SomeD:
  "get_ProductORM be db pid = Inr (Some p) \<Longrightarrow>
   p \<in> set (products db) \<and> p_id p = pid \<and> in_range be pid"
  by (auto simp: get_ProductORM_def find_Some_iff split: if_splits)

lemma get_ProductORM_out: "\<not> in_range be pid \<Longrightarrow> get_ProductORM be db pid = Inl OverflowError"
  by (simp add: get_ProductORM_def)

lemma get_CartORM_cart_items [simp]:
  "get_CartORM be (db\<lparr>cart_items := rows\<rparr>) cid = get_CartORM be db cid"
  by (simp add: get_CartORM_def)

lemma get_ProductORM_cart_items [simp]:
  "get_ProductORM be (db\<lparr>cart_items := rows\<rparr>) pid = get_ProductORM be db pid"
  by (simp add: get_ProductORM_def)

lemma find_filter: "find P (filter Q xs) = find (\<lambda>x. Q x \<and> P x) xs"
  by (induction xs) auto

lemma find_hd_filter:
  "find P xs = (case filter P xs of [] \<Rightarrow> None | x # rest \<Rightarrow> Some x)"
  by (induction xs) auto

lemma find_items_of:
  "find (\<lambda>ci. ci_product_id ci = pid) (items_of db \<lparr>c_id = cid\<rparr>) =
     (case lines_for db cid pid of [] \<Rightarrow> None | item # rest \<Rightarrow> Some item)"
  unfolding items_of_def lines_for_def find_filter by (simp add: find_hd_filter)




section \<open>What AddItem writes\<close>

lemma add_cart_item_found:
  assumes "1 \<le> quantity item" "in_range be cid" "in_range be (product_id item)"
    "cid \<in> c_id ` set (carts db)" "product_id item \<in> p_id ` set (products db)"
  shows "add_cart_item be ops cid item db =
     (if in_range be (held_quantity db cid (product_id item) + quantity item)
      then (cart_summary ops (added db cid item) \<lparr>c_id = cid\<rparr>, added db cid item)
      else (Inl OverflowError, db))"
proof -
  have c: "get_CartORM be db cid = Inr (Some \<lparr>c_id = cid\<rparr>)"
    using get_CartORM_cases [OF assms(2), of db] assms(4) by simp
  obtain p where p: "get_ProductORM be db (product_id item) = Inr (Some p)"
    using get_ProductORM_Some [OF assms(3,5)] by blast
  show ?thesis
    using assms(1) c p
    by (simp add: add_cart_item_def find_items_of held_quantity_def added_def Let_def
        split: list.splits)
qed

lemma add_cart_item_unchanged:
  "fst (add_cart_item be ops cid item db) = Inl (HTTPException code detail) \<or>
   fst (add_cart_item be ops cid item db) = Inl OverflowError \<or>
   fst (add_cart_item be ops cid item db) = Inl RequestValidationError \<Longrightarrow>
   snd (add_cart_item be ops cid item db) = db"
  by (auto simp: add_cart_item_def Let_def cart_summary_def
      split: if_splits sum.splits option.splits)

lemma positive_set_quantity:
  "list_all (\<lambda>ci. 0 < ci_quantity ci) rows \<Longrightarrow> 0 < q \<Longrightarrow>
   list_all (\<lambda>ci. 0 < ci_quantity ci) (set_quantity pk q rows)"
  by (induction rows) (auto simp: set_quantity_def)

lemma lines_for_mem: "lines_for db cid pid = e # rest \<Longrightarrow> e \<in> set (cart_items db)"
  by (metis filter_is_subset lines_for_def list.set_intros(1) subsetD)

lemma added_positive:
  assumes "list_all (\<lambda>ci. 0 < ci_quantity ci) (cart_items db)" "1 \<le> quantity item"
  shows "list_all (\<lambda>ci. 0 < ci_quantity ci) (cart_items (added db cid item))"
proof (cases "lines_for db cid (product_id item)")
  case Nil
  then show ?thesis using assms by (simp add: added_def)
next
  case (Cons e rest)
  then have "0 < ci_quantity e"
    using assms(1) lines_for_mem [OF Cons] by (simp add: list_all_iff)
  then show ?thesis
    using assms Cons by (simp add: added_def positive_set_quantity)
qed

lemma added_frame:
  "products (added db cid item) = products db \<and> carts (added db cid item) = carts db
   \<and> favorites (added db cid item) = favorites db"
  by (simp add: added_def split: list.splits)

section \<open>AddItem: which requests succeed\<close>


lemma shop_rows_valid: "rows_valid rational_ops shop"
  by (simp add: rows_valid_def shop_def widget_def ProductBase_valid_def Product_json_def
      rational_ops_def str_def)

lemma lenient_range: "in_range lenient_backend n \<longleftrightarrow> - (2 ^ 63) \<le> n \<and> n \<le> 2 ^ 63 - 1"
  by (simp add: in_range_def lenient_backend_def)



section \<open>RemoveItem\<close>








section \<open>AddItem: repeated adds accumulate\<close>

lemma filter_key_distinct:
  "distinct (map f xs) \<Longrightarrow> filter (\<lambda>x. f x = k) xs = y # ys \<Longrightarrow> ys = []"
proof (induction xs arbitrary: y ys)
  case Nil
  then show ?case by simp
next
  case (Cons x xs)
  show ?case
  proof (cases "f x = k")
    case True
    then have "k \<notin> f ` set xs" using Cons.prems(1) by auto
    then have "filter (\<lambda>x. f x = k) xs = []" by (auto simp: filter_empty_conv)
    with True Cons.prems(2) show ?thesis by simp
  next
    case False
    with Cons show ?thesis by simp
  qed
qed






lemma add_cart_item_store:
  "snd (add_cart_item be ops cid item db) = db \<or>
   snd (add_cart_item be ops cid item db) = added db cid item"
proof -
  consider "quantity item < 1" | "1 \<le> quantity item" "\<not> in_range be cid"
    | "1 \<le> quantity item" "in_range be cid" "cid \<notin> c_id ` set (carts db)"
    | "1 \<le> quantity item" "in_range be cid" "cid \<in> c_id ` set (carts db)"
      "\<not> in_range be (product_id item)"
    | "1 \<le> quantity item" "in_range be cid" "cid \<in> c_id ` set (carts db)"
      "in_range be (product_id item)" "product_id item \<notin> p_id ` set (products db)"
    | "1 \<le> quantity item" "in_range be cid" "cid \<in> c_id ` set (carts db)"
      "in_range be (product_id item)" "product_id item \<in> p_id ` set (products db)"
    by linarith
  then show ?thesis
  proof cases
    case 1
    then show ?thesis by (simp add: add_cart_item_def)
  next
    case 2
    then show ?thesis by (simp add: add_cart_item_def get_CartORM_out)
  next
    case 3
    then show ?thesis
      using get_CartORM_cases [of be cid db] by (simp add: add_cart_item_def)
  next
    case 4
    then show ?thesis
      using get_CartORM_cases [of be cid db] by (simp add: add_cart_item_def get_ProductORM_out)
  next
    case 5
    then show ?thesis
      using get_CartORM_cases [of be cid db]
      by (simp add: add_cart_item_def get_ProductORM_None)
  next
    case 6
    then show ?thesis by (simp add: add_cart_item_found)
  qed
qed







section \<open>Favorite Add\<close>

lemma respond_Product_ok:
  "rows_valid ops db \<Longrightarrow> p \<in> set (products db) \<Longrightarrow> respond_Product ops code p = Inr (code, p)"
  by (auto simp: rows_valid_def list_all_iff respond_Product_def Product_model_validate_def)

lemma add_favorite_store:
  assumes "rows_valid ops db" "get_ProductORM be db pid = Inr (Some p)"
  shows "add_favorite be ops pid db =
     (Inr (201, p),
      if favorites_of db pid = [] then
        db\<lparr>favorites := favorites db @
             [\<lparr>f_id = next_id (map f_id (favorites db)), f_product_id = pid\<rparr>]\<rparr>
      else db)"
  using assms respond_Product_ok [OF assms(1), of p 201] get_ProductORM_SomeD [OF assms(2)]
  by (simp add: add_favorite_def favorites_of_def find_hd_filter Let_def split: list.splits)

text \<open>
  Claim C6, as amended. Let the store have unique keys and valid rows, and let the product
  id be an integer the engine accepts. For a product that exists, \<^verbatim>\<open>add_favorite\<close> called
  twice answers 201 with the product both times, and the store after the first call, which
  the second call leaves as it is, has exactly one favorite row for the product; when the
  product was a favorite already, the first call changes nothing either. For an id no
  product has, it raises 404 "Product not found" and the store is unchanged: no favorite
  row is created.
\<close>

theorem add_favorite_idempotent:
  assumes "keys_ok db" and "rows_valid ops db" and "in_range be pid"
  shows "(pid \<in> p_id ` set (products db) \<longrightarrow>
           (\<exists>p db1 fav.
              p \<in> set (products db) \<and> p_id p = pid
              \<and> add_favorite be ops pid db = (Inr (201, p), db1)
              \<and> add_favorite be ops pid db1 = (Inr (201, p), db1)
              \<and> favorites_of db1 pid = [fav]
              \<and> (favorites_of db pid \<noteq> [] \<longrightarrow> db1 = db)))
       \<and> (pid \<notin> p_id ` set (products db) \<longrightarrow>
            add_favorite be ops pid db = (Inl (HTTPException 404 ''Product not found''), db))"
proof (cases "pid \<in> p_id ` set (products db)")
  case False
  then show ?thesis
    using get_ProductORM_None [OF assms(3) False] by (simp add: add_favorite_def)
next
  case True
  then obtain p where Some: "get_ProductORM be db pid = Inr (Some p)"
    and mem: "p \<in> set (products db)" "p_id p = pid"
    using get_ProductORM_Some [OF assms(3) True] by blast
  define db1 where "db1 = snd (add_favorite be ops pid db)"
  have r: "add_favorite be ops pid db = (Inr (201, p), db1)"
    unfolding db1_def by (simp add: add_favorite_store [OF assms(2) Some])
  have db1: "db1 = (if favorites_of db pid = [] then
        db\<lparr>favorites := favorites db @
             [\<lparr>f_id = next_id (map f_id (favorites db)), f_product_id = pid\<rparr>]\<rparr>
      else db)"
    unfolding db1_def by (simp add: add_favorite_store [OF assms(2) Some])
  have uniq: "distinct (map f_product_id (favorites db))"
    using assms(1) by (simp add: keys_ok_def)
  have one: "\<exists>fav. favorites_of db1 pid = [fav]"
  proof (cases "favorites_of db pid")
    case Nil
    then show ?thesis by (simp add: db1 favorites_of_def)
  next
    case (Cons f rest)
    then have "rest = []"
      using uniq unfolding favorites_of_def by (intro filter_key_distinct [of f_product_id])
    with Cons show ?thesis by (simp add: db1)
  qed
  have v1: "rows_valid ops db1" and g1: "get_ProductORM be db1 pid = Inr (Some p)"
    using assms(2,3) Some by (simp_all add: db1 rows_valid_def get_ProductORM_def)
  have "favorites_of db1 pid \<noteq> []" using one by auto
  then have r2: "add_favorite be ops pid db1 = (Inr (201, p), db1)"
    by (simp add: add_favorite_store [OF v1 g1])
  have "favorites_of db pid \<noteq> [] \<longrightarrow> db1 = db" by (simp add: db1)
  then show ?thesis using True mem r r2 one by blast
qed

theorem add_favorite_idempotent_witness:
  "keys_ok shop \<and> rows_valid rational_ops shop
   \<and> in_range lenient_backend 1 \<and> in_range lenient_backend 9
   \<and> (\<exists>p db1 fav. add_favorite lenient_backend rational_ops 1 shop = (Inr (201, p), db1)
         \<and> add_favorite lenient_backend rational_ops 1 db1 = (Inr (201, p), db1)
         \<and> favorites_of db1 1 = [fav])
   \<and> add_favorite lenient_backend rational_ops 9 shop
        = (Inl (HTTPException 404 ''Product not found''), shop)"
proof -
  have k: "keys_ok shop"
    by (simp add: keys_ok_def shop_def widget_def)
  note v = shop_rows_valid
  have r1: "in_range lenient_backend 1" and r9: "in_range lenient_backend 9"
    by (simp_all add: lenient_range)
  have i: "1 \<in> p_id ` set (products shop)" and n: "9 \<notin> p_id ` set (products shop)"
    by (simp_all add: shop_def widget_def)
  have a: "\<exists>p db1 fav. add_favorite lenient_backend rational_ops 1 shop = (Inr (201, p), db1)
         \<and> add_favorite lenient_backend rational_ops 1 db1 = (Inr (201, p), db1)
         \<and> favorites_of db1 1 = [fav]"
    using mp [OF add_favorite_idempotent [OF k v r1, THEN conjunct1] i] by blast
  have b: "add_favorite lenient_backend rational_ops 9 shop
        = (Inl (HTTPException 404 ''Product not found''), shop)"
    by (rule mp [OF add_favorite_idempotent [OF k v r9, THEN conjunct2] n])
  show ?thesis using k v r1 r9 a b by blast
qed

text \<open>The claim as stated has NotFound for every id no product has. On an engine with
  64-bit integers the id \<open>2 ^ 63\<close>, which no product has, ends in the driver's error
  instead.\<close>

theorem add_favorite_overflow_counterexample:
  "2 ^ 63 \<notin> p_id ` set (products shop)
   \<and> add_favorite lenient_backend rational_ops (2 ^ 63) shop = (Inl OverflowError, shop)"
  by (simp add: add_favorite_def get_ProductORM_def lenient_range shop_def widget_def)

section \<open>List: pagination\<close>














section \<open>List: search\<close>















section \<open>Delete\<close>

text \<open>A successful \<^verbatim>\<open>delete_product\<close> removes the product and every line-item that refers to
  it, and leaves the carts and the favorites as they are.\<close>

lemma delete_product_cascade:
  assumes "delete_product be pid db = (Inr r, db')"
  shows "pid \<notin> p_id ` set (products db') \<and> pid \<notin> ci_product_id ` set (cart_items db')
       \<and> favorites db' = favorites db \<and> carts db' = carts db"
  using assms
  by (auto simp: delete_product_def split: sum.splits option.splits if_splits
      dest!: get_ProductORM_SomeD)

text \<open>
  Claim C2 says that Delete also removes the favorite row of the product, by referential
  integrity. \<^verbatim>\<open>delete_product\<close> does not: on the store where the Widget is in the cart and is
  a favorite, an engine that does not enforce foreign keys answers 204 and removes the
  product and its line-item, and the favorite row still names product 1; an engine that
  enforces them fails the request with \<^verbatim>\<open>IntegrityError\<close> and removes nothing.
\<close>

theorem delete_product_keeps_favorite:
  "get_ProductORM lenient_backend favorite_shop 1 = Inr (Some widget)
   \<and> delete_product lenient_backend 1 favorite_shop =
        (Inr (204, ()),
         \<lparr>products = [], carts = [\<lparr>c_id = 1\<rparr>], cart_items = [],
          favorites = [\<lparr>f_id = 1, f_product_id = 1\<rparr>]\<rparr>)
   \<and> favorites_of (snd (delete_product lenient_backend 1 favorite_shop)) 1
        = [\<lparr>f_id = 1, f_product_id = 1\<rparr>]
   \<and> delete_product strict_backend 1 favorite_shop = (Inl IntegrityError, favorite_shop)"
  by (simp add: delete_product_def get_ProductORM_def favorite_shop_def shop3_def shop_def
      widget_def lenient_backend_def strict_backend_def favorites_of_def in_range_def)

section \<open>Update\<close>

text \<open>
  Claim C5 says that Update applies the validation of Create to every field supplied and
  changes exactly the fields of the payload. \<^verbatim>\<open>update_product\<close> does not for the body
  \<^verbatim>\<open>{"name": null}\<close>: it passes the validation of \<^verbatim>\<open>ProductUpdate\<close>, where Create answers 422
  to a name that is \<^verbatim>\<open>null\<close>; the handler sets the attribute, and the commit of the NOT NULL
  column fails with \<^verbatim>\<open>IntegrityError\<close>, answered 500, with the product unchanged.
\<close>

theorem update_product_null_name:
  "ProductUpdate_valid rational_ops null_name
   \<and> upd_name null_name = Given None
   \<and> get_ProductORM lenient_backend shop 1 = Inr (Some widget)
   \<and> update_product lenient_backend rational_ops 1 null_name shop = (Inl IntegrityError, shop)
   \<and> update_product strict_backend rational_ops 1 null_name shop = (Inl IntegrityError, shop)
   \<and> status_of IntegrityError = 500"
  by (simp add: ProductUpdate_valid_def null_name_def update_product_def get_ProductORM_def
      shop_def widget_def writes_null_def lenient_backend_def strict_backend_def in_range_def)

section \<open>The hypotheses on the store\<close>

text \<open>The theorems above assume of the store that its keys are unique, that its rows are
  valid and, for AddItem, that it has at most one line-item per (cart, product) pair.
  Every handler keeps unique keys and the one line-item per pair, and the handlers of
  carts and favorites and \<^verbatim>\<open>delete_product\<close> keep valid rows, whatever the request and
  whatever the response. (A new primary key is one the table does not have.)\<close>

lemma fold_max_ge: "(a :: int) \<le> fold max ids a"
  by (induction ids arbitrary: a) (auto intro: order_trans [OF max.cobounded2])

lemma fold_max_mem: "x \<in> set ids \<Longrightarrow> (x :: int) \<le> fold max ids a"
  by (induction ids arbitrary: a) (auto intro: order_trans [OF max.cobounded1 fold_max_ge])

lemma next_id_fresh: "next_id ids \<notin> set ids"
  using fold_max_mem [of "next_id ids" ids 0] by (auto simp: next_id_def)

lemma set_quantity_ids: "map ci_id (set_quantity pk q rows) = map ci_id rows"
  by (induction rows) (auto simp: set_quantity_def)

lemma added_keys: "keys_ok db \<Longrightarrow> keys_ok (added db cid item)"
  using next_id_fresh [of "map ci_id (cart_items db)"]
  by (auto simp: added_def keys_ok_def set_quantity_ids split: list.splits)

lemma add_cart_item_keys:
  "keys_ok db \<Longrightarrow> keys_ok (snd (add_cart_item be ops cid item db))"
  using add_cart_item_store [of be ops cid item db] added_keys [of db cid item] by auto

lemma add_cart_item_rows:
  assumes "rows_valid ops db"
  shows "rows_valid ops (snd (add_cart_item be ops cid item db))"
proof (cases "quantity item < 1")
  case True
  then show ?thesis using assms by (simp add: add_cart_item_def)
next
  case False
  then have "list_all (\<lambda>ci. 0 < ci_quantity ci) (cart_items (added db cid item))"
    using assms by (intro added_positive) (simp_all add: rows_valid_def)
  then have "rows_valid ops (added db cid item)"
    using assms added_frame [of db cid item] by (simp add: rows_valid_def)
  then show ?thesis
    using assms add_cart_item_store [of be ops cid item db] by auto
qed

lemma remove_cart_item_keeps:
  "keys_ok db \<Longrightarrow> keys_ok (snd (remove_cart_item be ops cid pid db))"
  "rows_valid ops db \<Longrightarrow> rows_valid ops (snd (remove_cart_item be ops cid pid db))"
  "one_line_per_pair db \<Longrightarrow> one_line_per_pair (snd (remove_cart_item be ops cid pid db))"
  by (auto simp: remove_cart_item_def keys_ok_def rows_valid_def one_line_per_pair_def Let_def
      delete_cart_item_row_def distinct_map_filter list_all_iff split: sum.splits option.splits)

lemma update_product_keeps:
  "keys_ok db \<Longrightarrow> keys_ok (snd (update_product be ops pid u db))"
  "one_line_per_pair db \<Longrightarrow> one_line_per_pair (snd (update_product be ops pid u db))"
proof -
  have ids: "map p_id (map (\<lambda>r. if p_id r = p_id p then set_fields u p else r) rows) = map p_id rows"
    for p :: "'a Product" and rows
    by (induction rows) (auto simp: set_fields_def)
  show "keys_ok db \<Longrightarrow> keys_ok (snd (update_product be ops pid u db))"
    using ids by (auto simp: update_product_def keys_ok_def Let_def simp del: map_map
        split: sum.splits option.splits if_splits)
  show "one_line_per_pair db \<Longrightarrow> one_line_per_pair (snd (update_product be ops pid u db))"
    by (auto simp: update_product_def one_line_per_pair_def Let_def
        split: sum.splits option.splits if_splits)
qed

lemma delete_product_keeps:
  "keys_ok db \<Longrightarrow> keys_ok (snd (delete_product be pid db))"
  "rows_valid ops db \<Longrightarrow> rows_valid ops (snd (delete_product be pid db))"
  "one_line_per_pair db \<Longrightarrow> one_line_per_pair (snd (delete_product be pid db))"
  by (auto simp: delete_product_def keys_ok_def rows_valid_def one_line_per_pair_def
      distinct_map_filter list_all_iff split: sum.splits option.splits)

lemma add_favorite_keeps:
  "keys_ok db \<Longrightarrow> keys_ok (snd (add_favorite be ops pid db))"
  "rows_valid ops db \<Longrightarrow> rows_valid ops (snd (add_favorite be ops pid db))"
  "one_line_per_pair db \<Longrightarrow> one_line_per_pair (snd (add_favorite be ops pid db))"
  using next_id_fresh [of "map f_id (favorites db)"]
  by (auto simp: add_favorite_def keys_ok_def rows_valid_def one_line_per_pair_def Let_def
      find_None_iff split: sum.splits option.splits)

end
